theory Spec2Isabelle
  imports Main "HOL-Library.Sublist"
begin

section \<open>JavaScript values\<close>

text \<open>
  Values that cross the storage and network boundaries are JSON values. Numbers are
  integers in this model (timestamps in milliseconds, expiry claims and time-to-live in
  seconds). An object is an association list with the keys \<^verbatim>\<open>JSON.parse\<close> produced.
\<close>

datatype json =
    JNull
  | JBool bool
  | JNumber int
  | JString string
  | JArray "json list"
  | JObject "(string \<times> json) list"

text \<open>The truthiness test of \<^verbatim>\<open>if (x)\<close> on a JSON value.\<close>

fun truthy :: "json \<Rightarrow> bool" where
  "truthy JNull = False"
| "truthy (JBool b) = b"
| "truthy (JNumber n) = (n \<noteq> 0)"
| "truthy (JString s) = (s \<noteq> [])"
| "truthy (JArray xs) = True"
| "truthy (JObject kvs) = True"

text \<open>
  A caller's payload (\<^verbatim>\<open>data: any\<close>) is either representable as JSON or not (a circular
  structure, for one); \<^verbatim>\<open>JSON.parse(JSON.stringify(data))\<close> throws on the latter.
\<close>

datatype jsdata = Plain json | NotSerializable

datatype error = RemoteFailure string | NoOfflineData | SerializationError | StorageError

fun plain_copy :: "jsdata \<Rightarrow> error + json" where
  "plain_copy (Plain v) = Inr v"
| "plain_copy NotSerializable = Inl SerializationError"

section \<open>useOfflineStorage: the durable store\<close>

text \<open>
  \<^verbatim>\<open>initDB()\<close> returns the database, returns \<^verbatim>\<open>null\<close> (not a client, or IndexedDB not
  supported), or rejects (the open request fails). A database over quota opens and reads,
  and fails its \<^verbatim>\<open>put\<close> and \<^verbatim>\<open>add\<close> requests.
\<close>

datatype idb_status = IdbReady | IdbUnsupported | IdbOpenError | IdbQuotaExceeded

text \<open>
  \<^verbatim>\<open>process.client && window.localStorage\<close> is false for \<open>LsMissing\<close>; with
  \<open>LsQuotaExceeded\<close> the object is there and \<^verbatim>\<open>setItem\<close> throws.
\<close>

datatype ls_status = LsOk | LsMissing | LsQuotaExceeded

record cache_entry =
  ce_value :: json
  ce_timestamp :: int
  ce_ttl :: "int option"

record fetch_options =
  opt_method :: "string option"
  opt_body :: "jsdata option"
  opt_extra :: "(string \<times> json) list"

record action =
  a_url :: string
  a_data :: jsdata
  a_options :: fetch_options
  a_cacheKey :: string

record queue_entry =
  q_id :: nat
  q_action :: action
  q_timestamp :: int

record storage =
  idb :: idb_status
  ls :: ls_status
  cache :: "string \<rightharpoonup> cache_entry"
  queue :: "queue_entry list"
  next_id :: nat
  localStorage :: "string \<rightharpoonup> cache_entry"

definition ls_usable :: "storage \<Rightarrow> bool" where
  "ls_usable st = (ls st \<noteq> LsMissing)"

text \<open>\<^verbatim>\<open>localStorage.setItem(key, JSON.stringify({ value, timestamp: Date.now(), ttl }))\<close>;
  \<open>None\<close> when it throws.\<close>

definition ls_setItem :: "string \<Rightarrow> json \<Rightarrow> int option \<Rightarrow> int \<Rightarrow> storage \<Rightarrow> storage option" where
  "ls_setItem key v t now st =
     (if ls st = LsOk
      then Some (st\<lparr>localStorage := (localStorage st)(key \<mapsto>
                  \<lparr>ce_value = v, ce_timestamp = now, ce_ttl = t\<rparr>)\<rparr>)
      else None)"

text \<open>
  \<^verbatim>\<open>save(key, value, options)\<close> resolves with a boolean (\<open>Inr\<close>) or rejects (\<open>Inl\<close>). The
  \<^verbatim>\<open>catch\<close> block is \<open>save_fallback\<close>: it is reached when the awaited \<^verbatim>\<open>initDB\<close> rejects and
  when the first \<^verbatim>\<open>setItem\<close> throws. The promise of the \<^verbatim>\<open>put\<close> request is returned from
  inside \<^verbatim>\<open>try\<close> without \<^verbatim>\<open>await\<close>, so a failed \<^verbatim>\<open>put\<close> rejects \<^verbatim>\<open>save\<close> itself and the
  \<^verbatim>\<open>catch\<close> block is not run.
\<close>

definition save_fallback ::
    "string \<Rightarrow> json \<Rightarrow> int option \<Rightarrow> int \<Rightarrow> storage \<Rightarrow> (error + bool) \<times> storage" where
  "save_fallback key v t now st =
     (if ls_usable st
      then (case ls_setItem key v t now st of
              Some st' \<Rightarrow> (Inr True, st')
            | None \<Rightarrow> (Inr False, st))
      else (Inr False, st))"

definition save ::
    "string \<Rightarrow> json \<Rightarrow> int option \<Rightarrow> int \<Rightarrow> storage \<Rightarrow> (error + bool) \<times> storage" where
  "save key v t now st =
     (case idb st of
        IdbOpenError \<Rightarrow> save_fallback key v t now st
      | IdbUnsupported \<Rightarrow>
          (if ls_usable st
           then (case ls_setItem key v t now st of
                   Some st' \<Rightarrow> (Inr True, st')
                 | None \<Rightarrow> save_fallback key v t now st)
           else (Inr False, st))
      | IdbQuotaExceeded \<Rightarrow> (Inl StorageError, st)
      | IdbReady \<Rightarrow>
          (Inr True, st\<lparr>cache := (cache st)(key \<mapsto>
                   \<lparr>ce_value = v, ce_timestamp = now, ce_ttl = t\<rparr>)\<rparr>))"

text \<open>
  \<^verbatim>\<open>save\<close> of a value that cannot be serialized: \<^verbatim>\<open>JSON.stringify\<close> throws inside \<^verbatim>\<open>try\<close>
  before any request is made and again in the \<^verbatim>\<open>catch\<close> block, and the result is \<^verbatim>\<open>false\<close>.
\<close>

definition save_unserializable :: "storage \<Rightarrow> (error + bool) \<times> storage" where
  "save_unserializable st = (Inr False, st)"

text \<open>
  \<^verbatim>\<open>remove(key)\<close>: no fallback once \<^verbatim>\<open>initDB\<close> has rejected.
\<close>

definition remove :: "string \<Rightarrow> storage \<Rightarrow> bool \<times> storage" where
  "remove key st =
     (case idb st of
        IdbOpenError \<Rightarrow> (False, st)
      | IdbUnsupported \<Rightarrow>
          (if ls_usable st
           then (True, st\<lparr>localStorage := (localStorage st)(key := None)\<rparr>)
           else (False, st))
      | _ \<Rightarrow> (True, st\<lparr>cache := (cache st)(key := None)\<rparr>))"

text \<open>
  The expiry test of \<^verbatim>\<open>get\<close>: \<^verbatim>\<open>if (result.ttl) { age = (Date.now() - result.timestamp) / 1000;
  if (age > result.ttl) ... }\<close>. The division is exact here, so \<open>age > ttl\<close> is
  \<open>now - timestamp > 1000 * ttl\<close>; a \<open>ttl\<close> of 0 is falsy and skips the test.
\<close>

definition expired :: "cache_entry \<Rightarrow> int \<Rightarrow> bool" where
  "expired e now =
     (case ce_ttl e of
        None \<Rightarrow> False
      | Some t \<Rightarrow> t \<noteq> 0 \<and> now - ce_timestamp e > 1000 * t)"

text \<open>
  \<^verbatim>\<open>get(key)\<close> returns the value or \<^verbatim>\<open>null\<close> (\<open>JNull\<close>). The localStorage branch returns
  \<^verbatim>\<open>parsed.value\<close> as it is.
\<close>

definition get :: "string \<Rightarrow> int \<Rightarrow> storage \<Rightarrow> json \<times> storage" where
  "get key now st =
     (case idb st of
        IdbOpenError \<Rightarrow> (JNull, st)
      | IdbUnsupported \<Rightarrow>
          (if ls_usable st
           then (case localStorage st key of
                   Some item \<Rightarrow> (ce_value item, st)
                 | None \<Rightarrow> (JNull, st))
           else (JNull, st))
      | _ \<Rightarrow>
          (case cache st key of
             None \<Rightarrow> (JNull, st)
           | Some result \<Rightarrow>
               (if expired result now
                then (JNull, snd (remove key st))
                else (ce_value result, st))))"

text \<open>
  \<^verbatim>\<open>queueAction(action)\<close>: the \<^verbatim>\<open>queue\<close> object store has an auto-incremented key.
  Without a database it resolves with \<^verbatim>\<open>false\<close>, and so it does when the action cannot
  be serialized (\<^verbatim>\<open>JSON.stringify\<close> throws inside \<^verbatim>\<open>try\<close>). The promise of the \<^verbatim>\<open>add\<close>
  request is returned without \<^verbatim>\<open>await\<close>, so a failed \<^verbatim>\<open>add\<close> rejects \<^verbatim>\<open>queueAction\<close>.
\<close>

definition serializable :: "action \<Rightarrow> bool" where
  "serializable a =
     (a_data a \<noteq> NotSerializable \<and> opt_body (a_options a) \<noteq> Some NotSerializable)"

definition queueAction :: "action \<Rightarrow> int \<Rightarrow> storage \<Rightarrow> (error + bool) \<times> storage" where
  "queueAction a now st =
     (case idb st of
        IdbReady \<Rightarrow>
          (if serializable a
           then (Inr True, st\<lparr>queue := queue st @
                          [\<lparr>q_id = next_id st, q_action = a, q_timestamp = now\<rparr>],
                        next_id := Suc (next_id st)\<rparr>)
           else (Inr False, st))
      | IdbQuotaExceeded \<Rightarrow>
          (if serializable a then (Inl StorageError, st) else (Inr False, st))
      | IdbUnsupported \<Rightarrow> (Inr False, st)
      | IdbOpenError \<Rightarrow> (Inr False, st))"

definition hasQueuedActions :: "storage \<Rightarrow> bool" where
  "hasQueuedActions st =
     (case idb st of
        IdbUnsupported \<Rightarrow> False
      | IdbOpenError \<Rightarrow> False
      | _ \<Rightarrow> queue st \<noteq> [])"

text \<open>\<^verbatim>\<open>deleteStore.delete(action.id)\<close>\<close>

definition dequeue :: "nat \<Rightarrow> storage \<Rightarrow> storage" where
  "dequeue i st = st\<lparr>queue := filter (\<lambda>q. q_id q \<noteq> i) (queue st)\<rparr>"

text \<open>
  The loop of \<^verbatim>\<open>processQueue\<close> over the result of \<^verbatim>\<open>getAll()\<close>. The processor is the
  caller's callback: it acts on the outside world \<open>'w\<close> and either returns (\<open>True\<close>) or
  throws (\<open>False\<close>). A throw is logged and the loop goes on to the next action.
\<close>

fun drain_loop :: "('w \<Rightarrow> queue_entry \<Rightarrow> bool \<times> 'w) \<Rightarrow> queue_entry list \<Rightarrow> storage \<times> 'w \<Rightarrow> storage \<times> 'w" where
  "drain_loop processor [] (st, w) = (st, w)"
| "drain_loop processor (a # as) (st, w) =
     (case processor w a of
        (True, w') \<Rightarrow> drain_loop processor as (dequeue (q_id a) st, w')
      | (False, w') \<Rightarrow> drain_loop processor as (st, w'))"

definition processQueue :: "('w \<Rightarrow> queue_entry \<Rightarrow> bool \<times> 'w) \<Rightarrow> storage \<times> 'w \<Rightarrow> storage \<times> 'w" where
  "processQueue processor s =
     (case idb (fst s) of
        IdbUnsupported \<Rightarrow> s
      | IdbOpenError \<Rightarrow> s
      | _ \<Rightarrow> drain_loop processor (queue (fst s)) s)"


section \<open>useOfflineApi: the network, reads and writes\<close>

text \<open>
  The remote API is outside the program. It has a state of its own, \<open>'r\<close>, and
  \<^verbatim>\<open>$fetch(url, options)\<close> resolves with a JSON value (\<open>Inr\<close>) or rejects with an error
  (\<open>Inl\<close>, its message). Every call is recorded with its answer, in order.
\<close>

type_synonym request = "string \<times> fetch_options"

type_synonym response = "string + json"

type_synonym exchange = "request \<times> response"

type_synonym 'r remote = "'r \<Rightarrow> string \<Rightarrow> fetch_options \<Rightarrow> response \<times> 'r"

type_synonym 'r network = "'r \<times> exchange list"

definition fetch :: "'r remote \<Rightarrow> string \<Rightarrow> fetch_options \<Rightarrow> 'r network \<Rightarrow> response \<times> 'r network" where
  "fetch api url opts net =
     (case api (fst net) url opts of
        (res, r') \<Rightarrow> (res, (r', snd net @ [((url, opts), res)])))"

definition request_of :: "queue_entry \<Rightarrow> request" where
  "request_of a = (a_url (q_action a), a_options (q_action a))"

text \<open>The callback that \<^verbatim>\<open>processQueuedActions\<close> hands to \<^verbatim>\<open>processQueue\<close>: it rethrows
  the error of \<^verbatim>\<open>$fetch(action.url, action.options)\<close>.\<close>

definition replay :: "'r remote \<Rightarrow> 'r network \<Rightarrow> queue_entry \<Rightarrow> bool \<times> 'r network" where
  "replay api net a =
     (case fetch api (a_url (q_action a)) (a_options (q_action a)) net of
        (Inr v, net') \<Rightarrow> (True, net')
      | (Inl e, net') \<Rightarrow> (False, net'))"

definition processQueuedActions :: "'r remote \<Rightarrow> storage \<times> 'r network \<Rightarrow> storage \<times> 'r network" where
  "processQueuedActions api s = processQueue (replay api) s"

text \<open>\<^verbatim>\<open>const key = cacheKey || url\<close>\<close>

definition cache_key :: "string option \<Rightarrow> string \<Rightarrow> string" where
  "cache_key cacheKey url =
     (case cacheKey of None \<Rightarrow> url | Some k \<Rightarrow> if k = [] then url else k)"

text \<open>The \<^verbatim>\<open>catch\<close> block of \<^verbatim>\<open>fetchWithCache\<close>: it is entered with the error of \<^verbatim>\<open>$fetch\<close>
  or with the error of the awaited \<^verbatim>\<open>save\<close>.\<close>

definition from_cache ::
    "string \<Rightarrow> int \<Rightarrow> error \<Rightarrow> storage \<Rightarrow> 'r network \<Rightarrow> (error + json) \<times> storage \<times> 'r network" where
  "from_cache key now e st net =
     (case get key now st of
        (cached, st') \<Rightarrow>
          if truthy cached then (Inr cached, st', net) else (Inl e, st', net))"

definition fetchWithCache ::
    "'r remote \<Rightarrow> bool \<Rightarrow> string \<Rightarrow> fetch_options \<Rightarrow> string option \<Rightarrow> int \<Rightarrow>
     storage \<times> 'r network \<Rightarrow> (error + json) \<times> storage \<times> 'r network" where
  "fetchWithCache api online url options cacheKey now s =
     (let key = cache_key cacheKey url; st = fst s; net = snd s in
      if \<not> online
      then (case get key now st of
              (cached, st') \<Rightarrow>
                if truthy cached then (Inr cached, st', net)
                else (Inl NoOfflineData, st', net))
      else (case fetch api url options net of
              (Inr data, net') \<Rightarrow>
                (case save key data (Some 86400) now st of
                   (Inr saved, st') \<Rightarrow> (Inr data, st', net')
                 | (Inl e, st') \<Rightarrow> from_cache key now e st' net')
            | (Inl msg, net') \<Rightarrow> from_cache key now (RemoteFailure msg) st net'))"

record update_result =
  success :: bool
  queued :: "bool option"

text \<open>\<^verbatim>\<open>{ ...options, method: options.method || 'PUT', body: data }\<close>\<close>

definition request_options :: "fetch_options \<Rightarrow> jsdata \<Rightarrow> fetch_options" where
  "request_options options data =
     options\<lparr>opt_method :=
               Some (case opt_method options of
                       None \<Rightarrow> ''PUT''
                     | Some m \<Rightarrow> if m = [] then ''PUT'' else m),
             opt_body := Some data\<rparr>"

definition optimistic :: "json \<Rightarrow> string \<Rightarrow> json" where
  "optimistic plainData msg =
     JObject [(''user'', plainData), (''success'', JBool True), (''message'', JString msg)]"

text \<open>The statements both branches share: the awaited \<^verbatim>\<open>queueAction\<close>, then the awaited
  optimistic \<^verbatim>\<open>save\<close>. Neither boolean is looked at; a rejection of either is thrown on.\<close>

definition queue_and_cache ::
    "string \<Rightarrow> string \<Rightarrow> json \<Rightarrow> fetch_options \<Rightarrow> string \<Rightarrow> int \<Rightarrow> storage \<Rightarrow>
     (error + unit) \<times> storage" where
  "queue_and_cache url key plainData requestOptions msg now st =
     (case queueAction \<lparr>a_url = url, a_data = Plain plainData,
                        a_options = requestOptions, a_cacheKey = key\<rparr> now st of
        (Inl e, st1) \<Rightarrow> (Inl e, st1)
      | (Inr was_queued, st1) \<Rightarrow>
          (case save key (optimistic plainData msg) (Some 86400) now st1 of
             (Inl e, st2) \<Rightarrow> (Inl e, st2)
           | (Inr saved, st2) \<Rightarrow> (Inr (), st2)))"

text \<open>The \<^verbatim>\<open>catch\<close> block of \<^verbatim>\<open>updateWithQueue\<close>: it is entered when \<^verbatim>\<open>$fetch\<close> rejects and
  when the awaited \<^verbatim>\<open>save\<close> of the response rejects.\<close>

definition queue_for_retry ::
    "string \<Rightarrow> string \<Rightarrow> jsdata \<Rightarrow> fetch_options \<Rightarrow> int \<Rightarrow> storage \<Rightarrow> 'r network \<Rightarrow>
     (error + update_result) \<times> storage \<times> 'r network" where
  "queue_for_retry url key data requestOptions now st net =
     (case plain_copy data of
        Inl e \<Rightarrow> (Inl e, st, net)
      | Inr plainData \<Rightarrow>
          (case queue_and_cache url key plainData requestOptions
                  ''Changes saved locally (will retry)'' now st of
             (Inl e, st') \<Rightarrow> (Inl e, st', net)
           | (Inr u, st') \<Rightarrow> (Inr \<lparr>success = False, queued = Some True\<rparr>, st', net)))"

definition updateWithQueue ::
    "'r remote \<Rightarrow> bool \<Rightarrow> string \<Rightarrow> jsdata \<Rightarrow> fetch_options \<Rightarrow> string option \<Rightarrow> int \<Rightarrow>
     storage \<times> 'r network \<Rightarrow> (error + update_result) \<times> storage \<times> 'r network" where
  "updateWithQueue api online url data options cacheKey now s =
     (let key = cache_key cacheKey url;
          requestOptions = request_options options data;
          st = fst s; net = snd s in
      if \<not> online
      then (case plain_copy data of
              Inl e \<Rightarrow> (Inl e, st, net)
            | Inr plainData \<Rightarrow>
                (case queue_and_cache url key plainData requestOptions
                        ''Changes saved locally (offline mode)'' now st of
                   (Inl e, st') \<Rightarrow> (Inl e, st', net)
                 | (Inr u, st') \<Rightarrow> (Inr \<lparr>success = True, queued = Some True\<rparr>, st', net)))
      else (case fetch api url requestOptions net of
              (Inr response, net') \<Rightarrow>
                (case save key response (Some 86400) now st of
                   (Inr saved, st') \<Rightarrow> (Inr \<lparr>success = True, queued = None\<rparr>, st', net')
                 | (Inl e, st') \<Rightarrow> queue_for_retry url key data requestOptions now st' net')
            | (Inl msg, net') \<Rightarrow> queue_for_retry url key data requestOptions now st net'))"

text \<open>
  The earlier variant of \<^verbatim>\<open>updateWithQueue\<close>: the payload is queued as it is and the
  cache gets \<^verbatim>\<open>{ user: data }\<close>. A payload that cannot be serialized makes \<^verbatim>\<open>queueAction\<close>
  and \<^verbatim>\<open>save\<close> resolve with \<^verbatim>\<open>false\<close>.
\<close>

definition optimistic_legacy :: "json \<Rightarrow> json" where
  "optimistic_legacy v = JObject [(''user'', v)]"

definition queue_and_cache_legacy ::
    "string \<Rightarrow> string \<Rightarrow> jsdata \<Rightarrow> fetch_options \<Rightarrow> int \<Rightarrow> storage \<Rightarrow> (error + unit) \<times> storage" where
  "queue_and_cache_legacy url key data requestOptions now st =
     (case queueAction \<lparr>a_url = url, a_data = data,
                        a_options = requestOptions, a_cacheKey = key\<rparr> now st of
        (Inl e, st1) \<Rightarrow> (Inl e, st1)
      | (Inr was_queued, st1) \<Rightarrow>
          (case (case data of
                   Plain v \<Rightarrow> save key (optimistic_legacy v) (Some 86400) now st1
                 | NotSerializable \<Rightarrow> save_unserializable st1) of
             (Inl e, st2) \<Rightarrow> (Inl e, st2)
           | (Inr saved, st2) \<Rightarrow> (Inr (), st2)))"

definition queue_for_retry_legacy ::
    "string \<Rightarrow> string \<Rightarrow> jsdata \<Rightarrow> fetch_options \<Rightarrow> int \<Rightarrow> storage \<Rightarrow> 'r network \<Rightarrow>
     (error + update_result) \<times> storage \<times> 'r network" where
  "queue_for_retry_legacy url key data requestOptions now st net =
     (case queue_and_cache_legacy url key data requestOptions now st of
        (Inl e, st') \<Rightarrow> (Inl e, st', net)
      | (Inr u, st') \<Rightarrow> (Inr \<lparr>success = False, queued = Some True\<rparr>, st', net))"

definition updateWithQueue_legacy ::
    "'r remote \<Rightarrow> bool \<Rightarrow> string \<Rightarrow> jsdata \<Rightarrow> fetch_options \<Rightarrow> string option \<Rightarrow> int \<Rightarrow>
     storage \<times> 'r network \<Rightarrow> (error + update_result) \<times> storage \<times> 'r network" where
  "updateWithQueue_legacy api online url data options cacheKey now s =
     (let key = cache_key cacheKey url;
          requestOptions = request_options options data;
          st = fst s; net = snd s in
      if \<not> online
      then (case queue_and_cache_legacy url key data requestOptions now st of
              (Inl e, st') \<Rightarrow> (Inl e, st', net)
            | (Inr u, st') \<Rightarrow> (Inr \<lparr>success = True, queued = Some True\<rparr>, st', net))
      else (case fetch api url requestOptions net of
              (Inr response, net') \<Rightarrow>
                (case save key response (Some 86400) now st of
                   (Inr saved, st') \<Rightarrow> (Inr \<lparr>success = True, queued = None\<rparr>, st', net')
                 | (Inl e, st') \<Rightarrow> queue_for_retry_legacy url key data requestOptions now st' net')
            | (Inl msg, net') \<Rightarrow> queue_for_retry_legacy url key data requestOptions now st net'))"

section \<open>useOfflineApi: the connectivity monitor\<close>

text \<open>
  What the environment answers when \<^verbatim>\<open>checkConnectivity\<close> runs: the value of
  \<^verbatim>\<open>navigator.onLine\<close> and the fate of the \<^verbatim>\<open>HEAD /api/health\<close> request. The request is
  answered with an HTTP status, in which case \<^verbatim>\<open>fetch\<close> resolves whatever the status is,
  or it is aborted after 3 seconds, or it fails at the network level; \<^verbatim>\<open>fetch\<close> rejects in
  the last two cases. The response is not looked at.
\<close>

datatype probe_outcome = Answered nat | ProbeTimeout | ProbeError

record net_env =
  navigator_onLine :: bool
  health :: probe_outcome

record monitor =
  onlineState :: bool
  probes_sent :: nat

definition checkConnectivity :: "net_env \<Rightarrow> monitor \<Rightarrow> bool \<times> monitor" where
  "checkConnectivity env m =
     (if \<not> navigator_onLine env then (False, m)
      else (case health env of
              Answered status \<Rightarrow> (True, m\<lparr>probes_sent := Suc (probes_sent m)\<rparr>)
            | ProbeTimeout \<Rightarrow> (False, m\<lparr>probes_sent := Suc (probes_sent m)\<rparr>)
            | ProbeError \<Rightarrow> (False, m\<lparr>probes_sent := Suc (probes_sent m)\<rparr>)))"

definition updateOnlineStatus :: "net_env \<Rightarrow> monitor \<Rightarrow> monitor" where
  "updateOnlineStatus env m =
     (case checkConnectivity env m of
        (isConnected, m') \<Rightarrow>
          if onlineState m' \<noteq> isConnected then m'\<lparr>onlineState := isConnected\<rparr> else m')"

text \<open>The listeners for the browser's \<^verbatim>\<open>online\<close> and \<^verbatim>\<open>offline\<close> events and the
  10-second interval.\<close>

datatype event = OnlineEvent net_env | OfflineEvent | IntervalTick net_env

fun handle :: "event \<Rightarrow> monitor \<Rightarrow> monitor" where
  "handle (OnlineEvent env) m = updateOnlineStatus env m"
| "handle OfflineEvent m = m\<lparr>onlineState := False\<rparr>"
| "handle (IntervalTick env) m = updateOnlineStatus env m"

text \<open>The listeners of the earlier variant of the module (no probe, no interval).\<close>

fun handle_legacy :: "event \<Rightarrow> monitor \<Rightarrow> monitor" where
  "handle_legacy (OnlineEvent env) m = m\<lparr>onlineState := True\<rparr>"
| "handle_legacy OfflineEvent m = m\<lparr>onlineState := False\<rparr>"
| "handle_legacy (IntervalTick env) m = m"

section \<open>useOfflineAuth: the offline credential check\<close>

text \<open>\<^verbatim>\<open>s.split(sep)\<close> for a separator that is not empty.\<close>

fun split_acc :: "string \<Rightarrow> string \<Rightarrow> string \<Rightarrow> string list" where
  "split_acc sep acc [] = [rev acc]"
| "split_acc sep acc (x # xs) =
     (if sep \<noteq> [] \<and> prefix sep (x # xs)
      then rev acc # split_acc sep [] (drop (length sep - 1) xs)
      else split_acc sep (x # acc) xs)"

definition split :: "string \<Rightarrow> string \<Rightarrow> string list" where
  "split sep s = split_acc sep [] s"

text \<open>
  What the platform supplies: \<^verbatim>\<open>JSON.parse(atob(segment))\<close>, \<open>None\<close> when either call
  throws, and the conversion to a number that \<^verbatim>\<open>payload.exp * 1000\<close> applies to a string,
  an array or an object (\<open>None\<close> is \<^verbatim>\<open>NaN\<close>).
\<close>

record platform =
  atob_parse :: "string \<Rightarrow> json option"
  to_number :: "json \<Rightarrow> int option"

text \<open>Reading \<^verbatim>\<open>payload.exp\<close>: a \<^verbatim>\<open>TypeError\<close> on \<^verbatim>\<open>null\<close>, \<^verbatim>\<open>undefined\<close> where the
  value has no such property.\<close>

datatype property = TypeError | Undefined | Prop json

fun get_exp :: "json \<Rightarrow> property" where
  "get_exp JNull = TypeError"
| "get_exp (JObject kvs) = (case map_of kvs ''exp'' of None \<Rightarrow> Undefined | Some v \<Rightarrow> Prop v)"
| "get_exp v = Undefined"

fun times_1000 :: "platform \<Rightarrow> json \<Rightarrow> int option" where
  "times_1000 pf JNull = Some 0"
| "times_1000 pf (JBool b) = Some (if b then 1000 else 0)"
| "times_1000 pf (JNumber n) = Some (n * 1000)"
| "times_1000 pf v = map_option (\<lambda>n. n * 1000) (to_number pf v)"

text \<open>\<^verbatim>\<open>now >= new Date(ms)\<close>: a time value beyond \<open>8.64e15\<close> in magnitude, or \<^verbatim>\<open>NaN\<close>, makes
  an invalid date, and every comparison with it is false.\<close>

definition now_ge_date :: "int \<Rightarrow> int option \<Rightarrow> bool" where
  "now_ge_date now ms =
     (case ms of
        None \<Rightarrow> False
      | Some t \<Rightarrow> if \<bar>t\<bar> > 8640000000000000 then False else now \<ge> t)"

definition verifyTokenOffline :: "platform \<Rightarrow> int \<Rightarrow> string \<Rightarrow> bool" where
  "verifyTokenOffline pf now token =
     (let parts = split ''.'' token in
      if length parts \<noteq> 3 then False
      else (case atob_parse pf (parts ! 1) of
              None \<Rightarrow> False
            | Some payload \<Rightarrow>
                (case get_exp payload of
                   TypeError \<Rightarrow> False
                 | Undefined \<Rightarrow> True
                 | Prop e \<Rightarrow>
                     if truthy e
                     then (if now_ge_date now (times_1000 pf e) then False else True)
                     else True)))"

text \<open>\<^verbatim>\<open>getTokenFromCookie\<close>: the argument is \<^verbatim>\<open>document.cookie\<close>, \<open>None\<close> where there is
  no \<^verbatim>\<open>document\<close>. The result \<open>None\<close> stands for \<^verbatim>\<open>null\<close> and \<^verbatim>\<open>undefined\<close>.\<close>

definition getTokenFromCookie :: "string option \<Rightarrow> string option" where
  "getTokenFromCookie document_cookie =
     (case document_cookie of
        None \<Rightarrow> None
      | Some cookieString \<Rightarrow>
          (case find (prefix ''auth_token='') (split ''; '' cookieString) of
             None \<Rightarrow> None
           | Some row \<Rightarrow>
               (case split ''='' row of
                  a # b # rest \<Rightarrow> Some b
                | _ \<Rightarrow> None)))"

definition AUTH_CACHE_KEY :: string where
  "AUTH_CACHE_KEY = ''auth_user_data''"

definition getCachedUserData :: "int \<Rightarrow> storage \<Rightarrow> json \<times> storage" where
  "getCachedUserData now st =
     (case get AUTH_CACHE_KEY now st of
        (userData, st') \<Rightarrow> if truthy userData then (userData, st') else (JNull, st'))"

datatype auth_method = Token | Cache | NoMethod

record auth_result =
  authenticated :: bool
  user :: json
  method_used :: auth_method

definition isAuthenticatedOffline ::
    "platform \<Rightarrow> string option \<Rightarrow> int \<Rightarrow> storage \<Rightarrow> auth_result \<times> storage" where
  "isAuthenticatedOffline pf document_cookie now st =
     (let token = getTokenFromCookie document_cookie;
          fall_back = (\<lambda>st1.
            case getCachedUserData now st1 of
              (cachedUser, st2) \<Rightarrow>
                if truthy cachedUser
                then (\<lparr>authenticated = True, user = cachedUser, method_used = Cache\<rparr>, st2)
                else (\<lparr>authenticated = False, user = JNull, method_used = NoMethod\<rparr>, st2))
      in case token of
           None \<Rightarrow> fall_back st
         | Some tok \<Rightarrow>
             if tok \<noteq> [] \<and> verifyTokenOffline pf now tok
             then (case getCachedUserData now st of
                     (cachedUser, st1) \<Rightarrow>
                       if truthy cachedUser
                       then (\<lparr>authenticated = True, user = cachedUser, method_used = Token\<rparr>, st1)
                       else fall_back st1)
             else fall_back st)"

text \<open>A platform for the examples: the claims of the four tokens used below, as
  \<^verbatim>\<open>JSON.parse(atob(...))\<close> gives them.\<close>

definition sample_platform :: platform where
  "sample_platform =
     \<lparr>atob_parse = (\<lambda>s.
        if s = ''eyJleHAiOjB9'' then Some (JObject [(''exp'', JNumber 0)])
        else if s = ''eyJleHAiOjIwMDB9'' then Some (JObject [(''exp'', JNumber 2000)])
        else if s = ''eyJleHAiOjEwMDB9'' then Some (JObject [(''exp'', JNumber 1000)])
        else if s = ''eyJzdWIiOiJ1MSJ9'' then Some (JObject [(''sub'', JString ''u1'')])
        else None),
      to_number = (\<lambda>v. None)\<rparr>"

section \<open>Notions used in the statements\<close>

text \<open>What the remote, starting in state \<open>r\<close>, answers to a sequence of requests.\<close>

fun answers :: "'r remote \<Rightarrow> 'r \<Rightarrow> request list \<Rightarrow> response list" where
  "answers api r [] = []"
| "answers api r (rq # rqs) =
     (case api r (fst rq) (snd rq) of (res, r') \<Rightarrow> res # answers api r' rqs)"

text \<open>The state the remote is in after those requests.\<close>

fun remote_after :: "'r remote \<Rightarrow> 'r \<Rightarrow> request list \<Rightarrow> 'r" where
  "remote_after api r [] = r"
| "remote_after api r (rq # rqs) =
     (case api r (fst rq) (snd rq) of (res, r') \<Rightarrow> remote_after api r' rqs)"

definition accepted :: "response \<Rightarrow> bool" where
  "accepted res = (case res of Inr v \<Rightarrow> True | Inl e \<Rightarrow> False)"

text \<open>The exchanges recorded in a state of store and network, and the requests among them.\<close>

definition exchanges :: "storage \<times> 'r network \<Rightarrow> exchange list" where
  "exchanges s = snd (snd s)"

definition sent :: "storage \<times> 'r network \<Rightarrow> request list" where
  "sent s = map fst (exchanges s)"

text \<open>Among the entries paired with their answers, one with the id of \<open>q\<close> was accepted.\<close>

definition removed_by :: "(queue_entry \<times> response) list \<Rightarrow> queue_entry \<Rightarrow> bool" where
  "removed_by z q = (\<exists>(a, res)\<in>set z. accepted res \<and> q_id q = q_id a)"

text \<open>The probe request got a response; the response has a successful status
  (\<^verbatim>\<open>response.ok\<close>).\<close>

fun answered :: "probe_outcome \<Rightarrow> bool" where
  "answered (Answered status) = True"
| "answered ProbeTimeout = False"
| "answered ProbeError = False"

fun response_ok :: "probe_outcome \<Rightarrow> bool" where
  "response_ok (Answered status) = (200 \<le> status \<and> status < 300)"
| "response_ok ProbeTimeout = False"
| "response_ok ProbeError = False"

text \<open>The database opens, so that the queue can be read.\<close>

definition db_open :: "storage \<Rightarrow> bool" where
  "db_open st = (idb st = IdbReady \<or> idb st = IdbQuotaExceeded)"

text \<open>The ids in the queue are distinct and below the next auto-incremented key.\<close>

definition ids_fresh :: "storage \<Rightarrow> bool" where
  "ids_fresh st =
     (distinct (map q_id (queue st)) \<and> (\<forall>q\<in>set (queue st). q_id q < next_id st))"

section \<open>Sample data\<close>

definition empty_store :: storage where
  "empty_store =
     \<lparr>idb = IdbReady, ls = LsOk, cache = Map.empty, queue = [], next_id = 1,
      localStorage = Map.empty\<rparr>"

definition no_options :: fetch_options where
  "no_options = \<lparr>opt_method = None, opt_body = None, opt_extra = []\<rparr>"

definition put_profile :: "string \<Rightarrow> action" where
  "put_profile name =
     \<lparr>a_url = ''/api/public/profile'',
      a_data = Plain (JObject [(''name'', JString name)]),
      a_options = \<lparr>opt_method = Some ''PUT'',
                   opt_body = Some (Plain (JObject [(''name'', JString name)])),
                   opt_extra = []\<rparr>,
      a_cacheKey = ''user-profile''\<rparr>"

definition write_A :: queue_entry where
  "write_A = \<lparr>q_id = 1, q_action = put_profile ''A'', q_timestamp = 10\<rparr>"

definition write_B :: queue_entry where
  "write_B = \<lparr>q_id = 2, q_action = put_profile ''B'', q_timestamp = 20\<rparr>"

definition two_writes :: storage where
  "two_writes = empty_store\<lparr>queue := [write_A, write_B], next_id := 3\<rparr>"

text \<open>Three remotes without a state of their own: one rejects the write of name A and
  accepts every other request, one accepts and one rejects every request. The fourth
  counts the requests it has seen and rejects the first one only.\<close>

definition rejects_A :: "unit remote" where
  "rejects_A r url opts =
     (if opt_body opts = Some (Plain (JObject [(''name'', JString ''A'')]))
      then Inl ''500 Internal Server Error''
      else Inr (JObject [(''success'', JBool True)]), r)"

definition accepts_all :: "unit remote" where
  "accepts_all r url opts = (Inr (JObject [(''success'', JBool True)]), r)"

definition rejects_all :: "unit remote" where
  "rejects_all r url opts = (Inl ''fetch failed'', r)"

definition rejects_first :: "nat remote" where
  "rejects_first n url opts =
     (if n = 0 then Inl ''503 Service Unavailable''
      else Inr (JObject [(''success'', JBool True)]), Suc n)"

text \<open>A browser without IndexedDB, and the same after one \<^verbatim>\<open>save\<close> with a
  time-to-live of 60 seconds at time 0.\<close>

definition fallback_only :: storage where
  "fallback_only = empty_store\<lparr>idb := IdbUnsupported\<rparr>"

definition stale_fallback :: storage where
  "stale_fallback = snd (save ''user-profile'' (JString ''stale'') (Some 60) 0 fallback_only)"

text \<open>A browser whose database is over quota: it opens and reads, and its \<^verbatim>\<open>put\<close> and
  \<^verbatim>\<open>add\<close> requests fail.\<close>

definition over_quota :: storage where
  "over_quota = empty_store\<lparr>idb := IdbQuotaExceeded\<rparr>"

text \<open>A remote that answers every request with the number 0, and the store after an
  online read from it at time 1000: the cache holds 0 under the key, with the 24-hour
  time-to-live.\<close>

definition returns_zero :: "unit remote" where
  "returns_zero r url opts = (Inr (JNumber 0), r)"

definition zero_cached :: storage where
  "zero_cached =
     fst (snd (fetchWithCache returns_zero True ''/api/unread'' no_options
                 (Some ''unread-count'') 1000 (empty_store, ((), []))))"

text \<open>A store with a cached identity, as \<^verbatim>\<open>cacheUserData\<close> writes it (no time-to-live).\<close>

definition sample_user :: json where
  "sample_user = JObject [(''email'', JString ''user@example.org'')]"

definition signed_in :: storage where
  "signed_in = snd (save AUTH_CACHE_KEY sample_user None 0 empty_store)"

section \<open>The ids of queued entries\<close>

text \<open>The store starts with fresh ids and every operation keeps them fresh, so the
  entries of a queue built by \<^verbatim>\<open>queueAction\<close> have distinct ids.\<close>

lemma ids_fresh_empty: "ids_fresh empty_store"
  by (simp add: ids_fresh_def empty_store_def)

lemma ids_fresh_queueAction: "ids_fresh st \<Longrightarrow> ids_fresh (snd (queueAction a now st))"
  by (cases "idb st") (auto simp: ids_fresh_def queueAction_def)

lemma ids_fresh_dequeue: "ids_fresh st \<Longrightarrow> ids_fresh (dequeue i st)"
  by (auto simp: ids_fresh_def dequeue_def distinct_map_filter)

lemma ids_fresh_save: "ids_fresh st \<Longrightarrow> ids_fresh (snd (save key v t now st))"
  by (cases "idb st"; cases "ls st")
     (simp_all add: ids_fresh_def save_def save_fallback_def ls_usable_def ls_setItem_def)

lemma ids_fresh_remove: "ids_fresh st \<Longrightarrow> ids_fresh (snd (remove key st))"
  by (cases "idb st"; cases "ls st") (simp_all add: ids_fresh_def remove_def ls_usable_def)

lemma ids_fresh_get: "ids_fresh st \<Longrightarrow> ids_fresh (snd (get key now st))"
  using ids_fresh_remove [of st key]
  by (cases "idb st"; cases "ls st")
     (auto simp: get_def ls_usable_def split: option.splits)

lemma ids_fresh_distinct: "ids_fresh st \<Longrightarrow> distinct (map q_id (queue st))"
  by (simp add: ids_fresh_def)

text \<open>The sample queue is what two offline writes leave behind.\<close>

lemma two_writes_enqueued:
  "two_writes =
     snd (queueAction (put_profile ''B'') 20 (snd (queueAction (put_profile ''A'') 10 empty_store)))"
  by (simp add: two_writes_def queueAction_def empty_store_def serializable_def put_profile_def
      write_A_def write_B_def)

section \<open>Facts about the drain loop\<close>

lemma length_answers: "length (answers api r rqs) = length rqs"
  by (induction rqs arbitrary: r) (auto split: prod.splits)



lemma replay_eq:
  "replay api (r, log) a =
     (accepted (fst (api r (fst (request_of a)) (snd (request_of a)))),
      (snd (api r (fst (request_of a)) (snd (request_of a))),
       log @ [(request_of a, fst (api r (fst (request_of a)) (snd (request_of a))))]))"
  by (simp add: replay_def fetch_def request_of_def accepted_def split: prod.splits sum.splits)

lemma drain_loop_run:
  "drain_loop (replay api) as (st, (r, log)) =
     (st\<lparr>queue := filter (\<lambda>q. \<not> removed_by (zip as (answers api r (map request_of as))) q) (queue st)\<rparr>,
      (remote_after api r (map request_of as),
       log @ zip (map request_of as) (answers api r (map request_of as))))"
proof (induction as arbitrary: st r log)
  case Nil
  show ?case by (simp add: removed_by_def)
next
  case (Cons a as)
  obtain res r' where ap: "api r (fst (request_of a)) (snd (request_of a)) = (res, r')"
    by (cases "api r (fst (request_of a)) (snd (request_of a))")
  have rp: "replay api (r, log) a = (accepted res, (r', log @ [(request_of a, res)]))"
    using ap by (simp add: replay_eq)
  show ?case
  proof (cases "accepted res")
    case True
    have "drain_loop (replay api) (a # as) (st, (r, log)) =
          drain_loop (replay api) as (dequeue (q_id a) st, (r', log @ [(request_of a, res)]))"
      using rp True by simp
    then show ?thesis
      using True ap by (simp add: Cons.IH dequeue_def removed_by_def)
  next
    case False
    have "drain_loop (replay api) (a # as) (st, (r, log)) =
          drain_loop (replay api) as (st, (r', log @ [(request_of a, res)]))"
      using rp False by simp
    then show ?thesis
      using False ap by (simp add: Cons.IH removed_by_def)
  qed
qed

lemma kept_entries:
  assumes "distinct (map q_id qs)" and "length rs = length qs"
  shows "filter (\<lambda>q. \<not> removed_by (zip qs rs) q) qs =
           map fst (filter (\<lambda>(q, res). \<not> accepted res) (zip qs rs))"
  using assms
proof (induction qs arbitrary: rs)
  case Nil
  show ?case by simp
next
  case (Cons q qs)
  obtain res rs' where rs: "rs = res # rs'" using Cons.prems(2) by (cases rs) auto
  have fresh: "\<And>x. x \<in> set qs \<Longrightarrow> q_id x \<noteq> q_id q" using Cons.prems(1) by (auto simp: image_iff)
  have notin: "\<not> removed_by (zip qs rs') q"
  proof
    assume "removed_by (zip qs rs') q"
    then obtain a res where z: "(a, res) \<in> set (zip qs rs')" and e: "q_id q = q_id a"
      by (auto simp: removed_by_def)
    from z have "a \<in> set qs" by (rule set_zip_leftD)
    with fresh [of a] e show False by simp
  qed
  have tail: "filter (\<lambda>x. \<not> removed_by (zip (q # qs) rs) x) qs =
              filter (\<lambda>x. \<not> removed_by (zip qs rs') x) qs"
    using fresh by (intro filter_cong) (auto simp: removed_by_def rs)
  have ih: "filter (\<lambda>x. \<not> removed_by (zip qs rs') x) qs =
            map fst (filter (\<lambda>(q, res). \<not> accepted res) (zip qs rs'))"
    using Cons.prems rs by (intro Cons.IH) auto
  have head: "removed_by (zip (q # qs) rs) q = accepted res"
    using notin by (auto simp: removed_by_def rs)
  show ?case
    using tail ih head by (simp add: rs)
qed

lemma processQueuedActions_open:
  assumes "db_open st" and "distinct (map q_id (queue st))"
  shows "processQueuedActions api (st, (r, log)) =
           (st\<lparr>queue := map fst (filter (\<lambda>(q, res). \<not> accepted res)
                              (zip (queue st) (answers api r (map request_of (queue st)))))\<rparr>,
            (remote_after api r (map request_of (queue st)),
             log @ zip (map request_of (queue st)) (answers api r (map request_of (queue st)))))"
proof -
  have "processQueuedActions api (st, (r, log)) = drain_loop (replay api) (queue st) (st, (r, log))"
    using assms(1) by (auto simp: processQueuedActions_def processQueue_def db_open_def)
  then show ?thesis
    using kept_entries [OF assms(2), of "answers api r (map request_of (queue st))"]
    by (simp add: drain_loop_run length_answers)
qed





section \<open>The sync engine\<close>

text \<open>
  C1 (amended). When the queue is drained (the database is open and the queued entries
  have distinct ids), the request of every entry present at the start is sent exactly
  once, in queue order, whether or not an earlier replay failed; the entries whose replay
  the remote rejected stay in the queue in their order and the entries whose replay it
  accepted are removed.
\<close>

theorem drain_replays_all_keeps_failed:
  assumes "db_open st" and "distinct (map q_id (queue st))"
  shows "sent (processQueuedActions api (st, (r, log))) = map fst log @ map request_of (queue st)
       \<and> exchanges (processQueuedActions api (st, (r, log))) =
           log @ zip (map request_of (queue st)) (answers api r (map request_of (queue st)))
       \<and> queue (fst (processQueuedActions api (st, (r, log)))) =
           map fst (filter (\<lambda>(q, res). \<not> accepted res)
                      (zip (queue st) (answers api r (map request_of (queue st)))))"
  using processQueuedActions_open [OF assms, of api r log]
  by (simp add: sent_def exchanges_def length_answers)


lemma two_writes_open: "db_open two_writes"
  by (simp add: db_open_def two_writes_def empty_store_def)

lemma two_writes_queue: "queue two_writes = [write_A, write_B]"
  by (simp add: two_writes_def)

lemma two_writes_ids: "distinct (map q_id (queue two_writes))"
  by (simp add: two_writes_queue write_A_def write_B_def)

text \<open>
  C1, as stated, fails. Two writes are queued, A before B, and the remote rejects A and
  accepts B. The drain does not stop at A: it replays B as well and removes B from the
  queue, so only A is left, with B applied before A has succeeded.
\<close>

theorem drain_continues_after_failure:
  "exchanges (processQueuedActions rejects_A (two_writes, ((), []))) =
     [(request_of write_A, Inl ''500 Internal Server Error''),
      (request_of write_B, Inr (JObject [(''success'', JBool True)]))]
   \<and> queue (fst (processQueuedActions rejects_A (two_writes, ((), [])))) = [write_A]
   \<and> write_B \<notin> set (queue (fst (processQueuedActions rejects_A (two_writes, ((), [])))))"
  by (simp add: processQueuedActions_def processQueue_def two_writes_def empty_store_def
      replay_def fetch_def rejects_A_def write_A_def write_B_def put_profile_def
      dequeue_def request_of_def exchanges_def)

text \<open>The amended C1 at the two queued writes, with the remote that rejects its first
  request.\<close>

theorem drain_replays_all_keeps_failed_witness:
  "db_open two_writes \<and> distinct (map q_id (queue two_writes))
   \<and> sent (processQueuedActions rejects_first (two_writes, (0, []))) =
       [request_of write_A, request_of write_B]
   \<and> queue (fst (processQueuedActions rejects_first (two_writes, (0, [])))) = [write_A]"
  using drain_replays_all_keeps_failed [OF two_writes_open two_writes_ids, of rejects_first 0 "[]"]
        two_writes_open two_writes_ids
  by (simp add: two_writes_queue rejects_first_def accepted_def request_of_def)



section \<open>The durable store\<close>

text \<open>On the primary substrate an entry past its time-to-live reads as absent and is
  deleted.\<close>

lemma get_primary_expired:
  assumes "db_open st" and "cache st key = Some e" and "ce_ttl e = Some t" and "t \<noteq> 0"
    and "now - ce_timestamp e > 1000 * t"
  shows "get key now st = (JNull, st\<lparr>cache := (cache st)(key := None)\<rparr>)"
  using assms by (auto simp: get_def remove_def expired_def db_open_def)

lemma stale_fallback_eq:
  "stale_fallback = fallback_only\<lparr>localStorage := (localStorage fallback_only)(''user-profile'' \<mapsto>
      \<lparr>ce_value = JString ''stale'', ce_timestamp = 0, ce_ttl = Some 60\<rparr>)\<rparr>"
  by (simp add: stale_fallback_def save_def fallback_only_def empty_store_def ls_usable_def
      ls_setItem_def)

text \<open>
  C3 at a failing input. IndexedDB is not supported, so \<^verbatim>\<open>save\<close> wrote the entry to
  localStorage with its timestamp 0 and a time-to-live of 60 seconds. One hour later its
  age exceeds the time-to-live, and \<^verbatim>\<open>get\<close> on the fallback substrate still returns the
  value and leaves the entry where it is.
\<close>

theorem fallback_get_ignores_ttl:
  "localStorage stale_fallback ''user-profile'' =
     Some \<lparr>ce_value = JString ''stale'', ce_timestamp = 0, ce_ttl = Some 60\<rparr>
   \<and> get ''user-profile'' 3600000 stale_fallback = (JString ''stale'', stale_fallback)"
  by (simp add: stale_fallback_eq get_def fallback_only_def empty_store_def ls_usable_def)

text \<open>
  C8, as stated, fails for the queue. With IndexedDB unsupported and localStorage
  working, \<^verbatim>\<open>queueAction\<close> reports failure and stores nothing in either substrate.
\<close>

theorem enqueue_has_no_fallback:
  "idb fallback_only = IdbUnsupported \<and> ls fallback_only = LsOk
   \<and> queueAction (put_profile ''A'') 10 fallback_only = (Inr False, fallback_only)"
  by (simp add: queueAction_def fallback_only_def empty_store_def)

text \<open>Unless a \<^verbatim>\<open>put\<close> request fails, \<^verbatim>\<open>save\<close> resolves, with \<^verbatim>\<open>false\<close> only when neither
  substrate took the entry. A failed \<^verbatim>\<open>put\<close> request makes it reject, and a failed \<^verbatim>\<open>add\<close>
  request makes \<^verbatim>\<open>queueAction\<close> reject.\<close>

lemma save_reports:
  "idb st \<noteq> IdbQuotaExceeded \<Longrightarrow>
     fst (save key v t now st) = Inr (idb st = IdbReady \<or> ls st = LsOk)"
  by (cases "idb st"; cases "ls st")
     (simp_all add: save_def save_fallback_def ls_usable_def ls_setItem_def)

lemma save_over_quota:
  "idb st = IdbQuotaExceeded \<Longrightarrow> save key v t now st = (Inl StorageError, st)"
  by (simp add: save_def)

lemma queueAction_over_quota:
  "idb st = IdbQuotaExceeded \<Longrightarrow> serializable a \<Longrightarrow>
     queueAction a now st = (Inl StorageError, st)"
  by (simp add: queueAction_def)

text \<open>
  C8 (amended). When \<^verbatim>\<open>initDB\<close> resolves with \<^verbatim>\<open>null\<close> (IndexedDB is not supported), the
  cache operations are served by
  localStorage: \<^verbatim>\<open>save\<close> writes the entry there and a later \<^verbatim>\<open>get\<close> of the key returns the
  saved value while the entry has not expired, a key that is not there reads as absent,
  \<^verbatim>\<open>remove\<close> deletes the entry and the key then reads as absent. For an entry read back
  within its time-to-live the caller gets from the fallback what a store \<open>p\<close> with a ready
  database gives. \<^verbatim>\<open>save\<close> reports failure exactly when localStorage takes no write
  either, and \<^verbatim>\<open>remove\<close> exactly when there is no localStorage. The queue has no fallback:
  \<^verbatim>\<open>queueAction\<close> reports failure and changes nothing.
\<close>

theorem cache_falls_back_queue_does_not:
  assumes "idb st = IdbUnsupported"
  shows "(ls st = LsOk \<longrightarrow>
            save key v t now st =
              (Inr True, st\<lparr>localStorage := (localStorage st)(key \<mapsto>
                         \<lparr>ce_value = v, ce_timestamp = now, ce_ttl = t\<rparr>)\<rparr>)
          \<and> (\<not> expired \<lparr>ce_value = v, ce_timestamp = now, ce_ttl = t\<rparr> now' \<longrightarrow>
               fst (get key now' (snd (save key v t now st))) = v
             \<and> (idb p = IdbReady \<longrightarrow>
                  fst (save key v t now p) = fst (save key v t now st)
                \<and> fst (get key now' (snd (save key v t now p))) =
                    fst (get key now' (snd (save key v t now st))))))
       \<and> (ls st \<noteq> LsMissing \<longrightarrow>
            (localStorage st key = None \<longrightarrow> get key now st = (JNull, st))
          \<and> remove key st = (True, st\<lparr>localStorage := (localStorage st)(key := None)\<rparr>)
          \<and> fst (get key now (snd (remove key st))) = JNull)
       \<and> (fst (save key v t now st) = Inr False \<longleftrightarrow> ls st \<noteq> LsOk)
       \<and> (fst (remove key st) = False \<longleftrightarrow> ls st = LsMissing)
       \<and> queueAction a now st = (Inr False, st)"
  using assms
  by (cases "ls st")
     (simp_all add: save_def save_fallback_def ls_usable_def ls_setItem_def get_def remove_def
        queueAction_def)

text \<open>The amended C8 at a browser without IndexedDB, compared with one that has it.\<close>

theorem cache_falls_back_queue_does_not_witness:
  "idb fallback_only = IdbUnsupported \<and> ls fallback_only = LsOk \<and> idb empty_store = IdbReady
   \<and> \<not> expired \<lparr>ce_value = JNumber 7, ce_timestamp = 1, ce_ttl = None\<rparr> 5
   \<and> fst (get ''k'' 5 (snd (save ''k'' (JNumber 7) None 1 fallback_only))) = JNumber 7
   \<and> fst (get ''k'' 5 (snd (save ''k'' (JNumber 7) None 1 empty_store))) =
       fst (get ''k'' 5 (snd (save ''k'' (JNumber 7) None 1 fallback_only)))
   \<and> fst (get ''k'' 1 (snd (remove ''k'' fallback_only))) = JNull
   \<and> fst (save ''k'' (JNumber 7) None 1 fallback_only) \<noteq> Inr False
   \<and> fst (remove ''k'' fallback_only) \<noteq> False
   \<and> queueAction (put_profile ''A'') 1 fallback_only = (Inr False, fallback_only)"
proof -
  have h: "idb fallback_only = IdbUnsupported" by (simp add: fallback_only_def)
  have l: "ls fallback_only = LsOk" by (simp add: fallback_only_def empty_store_def)
  have m: "ls fallback_only \<noteq> LsMissing" using l by simp
  have r: "idb empty_store = IdbReady" by (simp add: empty_store_def)
  have e: "\<not> expired \<lparr>ce_value = JNumber 7, ce_timestamp = 1, ce_ttl = None\<rparr> 5"
    by (simp add: expired_def)
  show ?thesis
    using cache_falls_back_queue_does_not
            [where key = "''k''" and v = "JNumber 7" and t = None and now = 1 and now' = 5
               and a = "put_profile ''A''" and p = empty_store, OF h] h l m r e
    by blast
qed

section \<open>Reads and writes\<close>

text \<open>An offline read never calls the network: the network state is unchanged, and the
  result is what \<^verbatim>\<open>get\<close> returned, if it is truthy.\<close>

lemma fetchWithCache_offline:
  "fetchWithCache api False url options cacheKey now (st, net) =
     (if truthy (fst (get (cache_key cacheKey url) now st))
      then Inr (fst (get (cache_key cacheKey url) now st)) else Inl NoOfflineData,
      snd (get (cache_key cacheKey url) now st), net)"
  by (simp add: fetchWithCache_def split: prod.splits)

text \<open>An online read whose remote call succeeds saves the result under the key with a
  time-to-live of 86400 seconds and returns it, unless the \<^verbatim>\<open>put\<close> request fails.\<close>

lemma fetchWithCache_online_ok:
  assumes "api r url options = (Inr data, r')" and "idb st \<noteq> IdbQuotaExceeded"
  shows "fetchWithCache api True url options cacheKey now (st, (r, log)) =
           (Inr data, snd (save (cache_key cacheKey url) data (Some 86400) now st),
            (r', log @ [((url, options), Inr data)]))"
proof -
  obtain b where "fst (save (cache_key cacheKey url) data (Some 86400) now st) = Inr b"
    using save_reports [OF assms(2)] by blast
  then show ?thesis
    using assms(1)
    by (cases "save (cache_key cacheKey url) data (Some 86400) now st")
       (simp add: fetchWithCache_def fetch_def)
qed

lemma fetchWithCache_online_failed:
  assumes "api r url options = (Inl msg, r')"
  shows "fetchWithCache api True url options cacheKey now (st, (r, log)) =
           (if truthy (fst (get (cache_key cacheKey url) now st))
            then Inr (fst (get (cache_key cacheKey url) now st)) else Inl (RemoteFailure msg),
            snd (get (cache_key cacheKey url) now st),
            (r', log @ [((url, options), Inl msg)]))"
  using assms by (simp add: fetchWithCache_def fetch_def from_cache_def split: prod.splits)

text \<open>With a failing \<^verbatim>\<open>put\<close> request an online read whose remote call succeeded ends in the
  \<^verbatim>\<open>catch\<close> block: it returns what the cache held before, or throws the storage error.\<close>

lemma fetchWithCache_online_over_quota:
  assumes "api r url options = (Inr data, r')" and "idb st = IdbQuotaExceeded"
  shows "fetchWithCache api True url options cacheKey now (st, (r, log)) =
           (if truthy (fst (get (cache_key cacheKey url) now st))
            then Inr (fst (get (cache_key cacheKey url) now st)) else Inl StorageError,
            snd (get (cache_key cacheKey url) now st),
            (r', log @ [((url, options), Inr data)]))"
  using assms
  by (simp add: fetchWithCache_def fetch_def from_cache_def save_over_quota split: prod.splits)

lemma zero_cached_eq:
  "zero_cached = empty_store\<lparr>cache := [''unread-count'' \<mapsto>
      \<lparr>ce_value = JNumber 0, ce_timestamp = 1000, ce_ttl = Some 86400\<rparr>]\<rparr>"
  by (simp add: zero_cached_def fetchWithCache_def fetch_def returns_zero_def cache_key_def
      save_def empty_store_def)

lemma get_zero_cached: "get ''unread-count'' 2000 zero_cached = (JNumber 0, zero_cached)"
  by (simp add: zero_cached_eq get_def empty_store_def expired_def)

text \<open>
  C5 at two failing inputs. An online read has fetched the value 0 and cached it at time
  1000 with the 24-hour time-to-live. One second later, offline, the entry is present and
  unexpired, and \<^verbatim>\<open>fetchWithCache\<close> fails with the no-offline-data error, because
  \<^verbatim>\<open>if (cached)\<close> is false for 0. On the fallback substrate the entry that expired after
  60 seconds is returned one hour later instead of the error. No request is sent in
  either offline read.
\<close>

theorem offline_read_misses_falsy_value:
  "fst (fetchWithCache returns_zero True ''/api/unread'' no_options (Some ''unread-count'') 1000
          (empty_store, ((), []))) = Inr (JNumber 0)
   \<and> cache zero_cached ''unread-count'' =
     Some \<lparr>ce_value = JNumber 0, ce_timestamp = 1000, ce_ttl = Some 86400\<rparr>
   \<and> \<not> expired \<lparr>ce_value = JNumber 0, ce_timestamp = 1000, ce_ttl = Some 86400\<rparr> 2000
   \<and> fetchWithCache accepts_all False ''/api/unread'' no_options (Some ''unread-count'') 2000
        (zero_cached, ((), [])) = (Inl NoOfflineData, zero_cached, ((), []))
   \<and> fetchWithCache accepts_all False ''/api/public/profile'' no_options (Some ''user-profile'')
        3600000 (stale_fallback, ((), [])) = (Inr (JString ''stale''), stale_fallback, ((), []))"
proof -
  have "get ''user-profile'' 3600000 stale_fallback = (JString ''stale'', stale_fallback)"
    by (simp add: stale_fallback_eq get_def fallback_only_def empty_store_def ls_usable_def)
  moreover have "returns_zero () ''/api/unread'' no_options = (Inr (JNumber 0), ())"
    by (simp add: returns_zero_def)
  moreover have "idb empty_store \<noteq> IdbQuotaExceeded" by (simp add: empty_store_def)
  ultimately show ?thesis
    using get_zero_cached
    by (simp add: fetchWithCache_offline fetchWithCache_online_ok [where api = returns_zero]
        cache_key_def expired_def zero_cached_eq)
qed

text \<open>
  C9 at a failing input. Online, the remote call fails and the key holds the value 0,
  present and unexpired: \<^verbatim>\<open>fetchWithCache\<close> throws the remote failure instead of returning
  the cached value.
\<close>

theorem online_failure_misses_falsy_value:
  "cache zero_cached ''unread-count'' =
     Some \<lparr>ce_value = JNumber 0, ce_timestamp = 1000, ce_ttl = Some 86400\<rparr>
   \<and> \<not> expired \<lparr>ce_value = JNumber 0, ce_timestamp = 1000, ce_ttl = Some 86400\<rparr> 2000
   \<and> fetchWithCache rejects_all True ''/api/unread'' no_options (Some ''unread-count'') 2000
        (zero_cached, ((), [])) =
       (Inl (RemoteFailure ''fetch failed''), zero_cached,
        ((), [((''/api/unread'', no_options), Inl ''fetch failed'')]))"
proof -
  have "rejects_all () ''/api/unread'' no_options = (Inl ''fetch failed'', ())"
    by (simp add: rejects_all_def)
  from fetchWithCache_online_failed [where api = rejects_all, OF this] show ?thesis
    using get_zero_cached by (simp add: cache_key_def zero_cached_eq expired_def)
qed

text \<open>
  C6, as stated, fails: an online write whose remote call fails reports
  \<^verbatim>\<open>{ success: false, queued: true }\<close>, not success with queued. The database is ready and
  the mutation is in the queue.
\<close>

theorem online_write_failure_reports_false:
  "idb empty_store = IdbReady
   \<and> fst (updateWithQueue rejects_all True ''/api/public/profile''
          (Plain (JObject [(''name'', JString ''A'')])) no_options (Some ''user-profile'') 10
          (empty_store, ((), []))) = Inr \<lparr>success = False, queued = Some True\<rparr>
   \<and> fst (updateWithQueue_legacy rejects_all True ''/api/public/profile''
          (Plain (JObject [(''name'', JString ''A'')])) no_options (Some ''user-profile'') 10
          (empty_store, ((), []))) = Inr \<lparr>success = False, queued = Some True\<rparr>"
  by (simp add: updateWithQueue_def updateWithQueue_legacy_def fetch_def rejects_all_def Let_def
      queue_for_retry_def queue_for_retry_legacy_def queue_and_cache_def
      queue_and_cache_legacy_def queueAction_def save_def empty_store_def serializable_def
      request_options_def no_options_def)

text \<open>The queue entry that \<^verbatim>\<open>queueAction\<close> appends for a write, and the store after the
  entry is queued and the optimistic value \<open>v\<close> is cached.\<close>

lemma queued_and_cached:
  assumes "idb st = IdbReady" and "serializable a"
  shows "(case queueAction a now st of
            (Inl e, st1) \<Rightarrow> (Inl e, st1)
          | (Inr was_queued, st1) \<Rightarrow>
              (case save key v (Some 86400) now st1 of
                 (Inl e, st2) \<Rightarrow> (Inl e, st2)
               | (Inr saved, st2) \<Rightarrow> (Inr (), st2))) =
         (Inr (),
          st\<lparr>queue := queue st @ [\<lparr>q_id = next_id st, q_action = a, q_timestamp = now\<rparr>],
             next_id := Suc (next_id st),
             cache := (cache st)(key \<mapsto>
                        \<lparr>ce_value = v, ce_timestamp = now, ce_ttl = Some 86400\<rparr>)\<rparr>)"
  using assms by (simp add: queueAction_def save_def)

text \<open>
  C6 (amended). For a write attempted while online, with the database ready and a
  serializable payload: if the remote call succeeds, the server's response is saved under
  the cache key with a time-to-live of 86400 seconds and the result is
  \<^verbatim>\<open>{ success: true }\<close>; if it fails, the mutation is appended to the queue, the optimistic
  representation of the payload is saved under the cache key, and the result is
  \<^verbatim>\<open>{ success: false, queued: true }\<close>. In both cases the call returns and does not throw.
  This holds for \<^verbatim>\<open>updateWithQueue\<close> and for its earlier variant, which differ in the
  optimistic representation.
\<close>

theorem online_write:
  assumes "idb st = IdbReady" and "plain_copy data = Inr plainData"
  shows "(api r url (request_options options data) = (Inr response, r') \<longrightarrow>
            updateWithQueue api True url data options cacheKey now (st, (r, log)) =
              (Inr \<lparr>success = True, queued = None\<rparr>,
               st\<lparr>cache := (cache st)(cache_key cacheKey url \<mapsto>
                     \<lparr>ce_value = response, ce_timestamp = now, ce_ttl = Some 86400\<rparr>)\<rparr>,
               (r', log @ [((url, request_options options data), Inr response)]))
          \<and> updateWithQueue_legacy api True url data options cacheKey now (st, (r, log)) =
              updateWithQueue api True url data options cacheKey now (st, (r, log)))
       \<and> (api r url (request_options options data) = (Inl msg, r') \<longrightarrow>
            updateWithQueue api True url data options cacheKey now (st, (r, log)) =
              (Inr \<lparr>success = False, queued = Some True\<rparr>,
               st\<lparr>queue := queue st @
                      [\<lparr>q_id = next_id st,
                        q_action = \<lparr>a_url = url, a_data = Plain plainData,
                                    a_options = request_options options data,
                                    a_cacheKey = cache_key cacheKey url\<rparr>,
                        q_timestamp = now\<rparr>],
                  next_id := Suc (next_id st),
                  cache := (cache st)(cache_key cacheKey url \<mapsto>
                     \<lparr>ce_value = optimistic plainData ''Changes saved locally (will retry)'',
                      ce_timestamp = now, ce_ttl = Some 86400\<rparr>)\<rparr>,
               (r', log @ [((url, request_options options data), Inl msg)]))
          \<and> updateWithQueue_legacy api True url data options cacheKey now (st, (r, log)) =
              (Inr \<lparr>success = False, queued = Some True\<rparr>,
               st\<lparr>queue := queue st @
                      [\<lparr>q_id = next_id st,
                        q_action = \<lparr>a_url = url, a_data = Plain plainData,
                                    a_options = request_options options data,
                                    a_cacheKey = cache_key cacheKey url\<rparr>,
                        q_timestamp = now\<rparr>],
                  next_id := Suc (next_id st),
                  cache := (cache st)(cache_key cacheKey url \<mapsto>
                     \<lparr>ce_value = optimistic_legacy plainData,
                      ce_timestamp = now, ce_ttl = Some 86400\<rparr>)\<rparr>,
               (r', log @ [((url, request_options options data), Inl msg)])))
       \<and> (\<exists>res. fst (updateWithQueue api True url data options cacheKey now (st, (r, log))) =
                  Inr res)
       \<and> (\<exists>res. fst (updateWithQueue_legacy api True url data options cacheKey now
                        (st, (r, log))) = Inr res)"
proof -
  let ?key = "cache_key cacheKey url"
  let ?a = "\<lparr>a_url = url, a_data = Plain plainData,
             a_options = request_options options data, a_cacheKey = ?key\<rparr>"
  have d: "data = Plain plainData" using assms(2) by (cases data) simp_all
  have ser: "serializable ?a"
    using d by (simp add: serializable_def request_options_def)
  have qc: "queue_and_cache url ?key plainData (request_options options data)
              ''Changes saved locally (will retry)'' now st =
            (Inr (),
             st\<lparr>queue := queue st @ [\<lparr>q_id = next_id st, q_action = ?a, q_timestamp = now\<rparr>],
                next_id := Suc (next_id st),
                cache := (cache st)(?key \<mapsto>
                   \<lparr>ce_value = optimistic plainData ''Changes saved locally (will retry)'',
                    ce_timestamp = now, ce_ttl = Some 86400\<rparr>)\<rparr>)"
    unfolding queue_and_cache_def by (rule queued_and_cached [OF assms(1) ser])
  have ql: "queue_and_cache_legacy url ?key data (request_options options data) now st =
            (Inr (),
             st\<lparr>queue := queue st @ [\<lparr>q_id = next_id st, q_action = ?a, q_timestamp = now\<rparr>],
                next_id := Suc (next_id st),
                cache := (cache st)(?key \<mapsto>
                   \<lparr>ce_value = optimistic_legacy plainData,
                    ce_timestamp = now, ce_ttl = Some 86400\<rparr>)\<rparr>)"
    using assms(1) ser
    by (simp add: queue_and_cache_legacy_def d queueAction_def save_def)
  have sv: "\<And>v. save ?key v (Some 86400) now st =
              (Inr True, st\<lparr>cache := (cache st)(?key \<mapsto>
                    \<lparr>ce_value = v, ce_timestamp = now, ce_ttl = Some 86400\<rparr>)\<rparr>)"
    using assms(1) by (simp add: save_def)
  obtain res r'' where ap: "api r url (request_options options data) = (res, r'')"
    by (cases "api r url (request_options options data)")
  show ?thesis
  proof (cases res)
    case (Inr response')
    then show ?thesis
      using ap sv
      by (simp add: updateWithQueue_def updateWithQueue_legacy_def fetch_def Let_def)
  next
    case (Inl msg')
    then show ?thesis
      using ap qc ql assms(2)
      by (simp add: updateWithQueue_def updateWithQueue_legacy_def fetch_def Let_def
          queue_for_retry_def queue_for_retry_legacy_def)
  qed
qed

text \<open>With a payload that cannot be serialized, a failed remote call ends in the
  serialization error; the earlier variant returns, with nothing queued or cached.\<close>

lemma online_write_not_serializable:
  assumes "api r url (request_options options NotSerializable) = (Inl msg, r')"
  shows "updateWithQueue api True url NotSerializable options cacheKey now (st, (r, log)) =
           (Inl SerializationError, st,
            (r', log @ [((url, request_options options NotSerializable), Inl msg)]))"
  using assms by (simp add: updateWithQueue_def fetch_def Let_def queue_for_retry_def)

text \<open>With failing \<^verbatim>\<open>put\<close> and \<^verbatim>\<open>add\<close> requests an online write throws the storage error,
  whether the remote accepted it or not.\<close>

lemma online_write_over_quota:
  assumes "idb st = IdbQuotaExceeded" and "plain_copy data = Inr plainData"
  shows "fst (updateWithQueue api True url data options cacheKey now (st, (r, log))) =
           Inl StorageError"
proof -
  have d: "data = Plain plainData" using assms(2) by (cases data) simp_all
  have "serializable \<lparr>a_url = url, a_data = Plain plainData,
                      a_options = request_options options data,
                      a_cacheKey = cache_key cacheKey url\<rparr>"
    using d by (simp add: serializable_def request_options_def)
  then show ?thesis
    using assms
    by (cases "api r url (request_options options data)")
       (simp add: updateWithQueue_def fetch_def Let_def queue_for_retry_def queue_and_cache_def
          save_over_quota queueAction_over_quota split: sum.splits)
qed

text \<open>The amended C6 at a profile write, with a remote that accepts and one that rejects.\<close>

theorem online_write_witness:
  "idb empty_store = IdbReady
   \<and> plain_copy (Plain (JObject [(''name'', JString ''A'')])) = Inr (JObject [(''name'', JString ''A'')])
   \<and> fst (updateWithQueue accepts_all True ''/api/public/profile''
            (Plain (JObject [(''name'', JString ''A'')])) no_options (Some ''user-profile'') 10
            (empty_store, ((), []))) = Inr \<lparr>success = True, queued = None\<rparr>
   \<and> fst (updateWithQueue rejects_all True ''/api/public/profile''
            (Plain (JObject [(''name'', JString ''A'')])) no_options (Some ''user-profile'') 10
            (empty_store, ((), []))) = Inr \<lparr>success = False, queued = Some True\<rparr>
   \<and> length (queue (fst (snd (updateWithQueue rejects_all True ''/api/public/profile''
            (Plain (JObject [(''name'', JString ''A'')])) no_options (Some ''user-profile'') 10
            (empty_store, ((), [])))))) = 1"
proof -
  have i: "idb empty_store = IdbReady" by (simp add: empty_store_def)
  have p: "plain_copy (Plain (JObject [(''name'', JString ''A'')])) =
             Inr (JObject [(''name'', JString ''A'')])"
    by simp
  have ok: "accepts_all () ''/api/public/profile''
              (request_options no_options (Plain (JObject [(''name'', JString ''A'')]))) =
            (Inr (JObject [(''success'', JBool True)]), ())"
    by (simp add: accepts_all_def)
  have ko: "rejects_all () ''/api/public/profile''
              (request_options no_options (Plain (JObject [(''name'', JString ''A'')]))) =
            (Inl ''fetch failed'', ())"
    by (simp add: rejects_all_def)
  have q: "queue empty_store = []" by (simp add: empty_store_def)
  note A = online_write [where api = accepts_all and url = "''/api/public/profile''"
                          and options = no_options and cacheKey = "Some ''user-profile''"
                          and now = 10 and log = "[]" and r = "()" and r' = "()"
                          and response = "JObject [(''success'', JBool True)]", OF i p]
  note B = online_write [where api = rejects_all and url = "''/api/public/profile''"
                          and options = no_options and cacheKey = "Some ''user-profile''"
                          and now = 10 and log = "[]" and r = "()" and r' = "()"
                          and msg = "''fetch failed''", OF i p]
  have 1: "fst (updateWithQueue accepts_all True ''/api/public/profile''
            (Plain (JObject [(''name'', JString ''A'')])) no_options (Some ''user-profile'') 10
            (empty_store, ((), []))) = Inr \<lparr>success = True, queued = None\<rparr>"
    using A [THEN conjunct1, rule_format, OF ok, THEN conjunct1] by simp
  note B' = B [THEN conjunct2, THEN conjunct1, rule_format, OF ko, THEN conjunct1]
  have 2: "fst (updateWithQueue rejects_all True ''/api/public/profile''
            (Plain (JObject [(''name'', JString ''A'')])) no_options (Some ''user-profile'') 10
            (empty_store, ((), []))) = Inr \<lparr>success = False, queued = Some True\<rparr>"
    using B' by simp
  have 3: "length (queue (fst (snd (updateWithQueue rejects_all True ''/api/public/profile''
            (Plain (JObject [(''name'', JString ''A'')])) no_options (Some ''user-profile'') 10
            (empty_store, ((), [])))))) = 1"
    using B' q by simp
  show ?thesis using i p 1 2 3 by blast
qed

section \<open>The connectivity monitor\<close>

text \<open>
  C7, as stated, fails. After the \<^verbatim>\<open>online\<close> event the health endpoint answers the probe
  with status 500: \<^verbatim>\<open>fetch\<close> resolves, the response is not read, and the state becomes
  online although the probe did not succeed. In the earlier variant of the module the
  \<^verbatim>\<open>online\<close> event makes the state online with no probe sent at all, here while the
  health endpoint cannot be reached.
\<close>

theorem probe_answered_with_error_goes_online:
  "\<not> response_ok (Answered 500)
   \<and> onlineState (handle (OnlineEvent \<lparr>navigator_onLine = True, health = Answered 500\<rparr>)
                    \<lparr>onlineState = False, probes_sent = 0\<rparr>)
   \<and> onlineState (handle_legacy (OnlineEvent \<lparr>navigator_onLine = True, health = ProbeError\<rparr>)
                    \<lparr>onlineState = False, probes_sent = 0\<rparr>)
   \<and> probes_sent (handle_legacy (OnlineEvent \<lparr>navigator_onLine = True, health = ProbeError\<rparr>)
                    \<lparr>onlineState = False, probes_sent = 0\<rparr>) = 0"
  by (simp add: updateOnlineStatus_def checkConnectivity_def)

text \<open>
  C7 (amended). The \<^verbatim>\<open>offline\<close> event sets the state to offline at once and sends no
  probe, in the module and in its earlier variant. In the module, after the \<^verbatim>\<open>online\<close>
  event the state is online exactly when \<^verbatim>\<open>navigator.onLine\<close> holds and the probe of the
  health endpoint was answered, with whatever status; it is online only if a probe was
  sent, and a probe that timed out or failed at the network level leaves it offline.
\<close>

theorem monitor_transitions:
  "onlineState (handle OfflineEvent m) = False
   \<and> probes_sent (handle OfflineEvent m) = probes_sent m
   \<and> onlineState (handle_legacy OfflineEvent m) = False
   \<and> probes_sent (handle_legacy OfflineEvent m) = probes_sent m
   \<and> onlineState (handle (OnlineEvent env) m) = (navigator_onLine env \<and> answered (health env))
   \<and> (onlineState (handle (OnlineEvent env) m) \<longrightarrow>
        probes_sent (handle (OnlineEvent env) m) = Suc (probes_sent m))
   \<and> (health env = ProbeTimeout \<or> health env = ProbeError \<longrightarrow>
        \<not> onlineState (handle (OnlineEvent env) m))"
  by (cases "health env") (auto simp: updateOnlineStatus_def checkConnectivity_def)

text \<open>The earlier variant of the module declares the state online on the \<^verbatim>\<open>online\<close>
  event without a probe.\<close>

lemma legacy_online_without_probe:
  "onlineState (handle_legacy (OnlineEvent env) m) = True
   \<and> probes_sent (handle_legacy (OnlineEvent env) m) = probes_sent m"
  by simp

text \<open>The amended C7 at a probe answered with status 200 and at a probe that timed out.\<close>

theorem monitor_transitions_witness:
  "onlineState (handle (OnlineEvent \<lparr>navigator_onLine = True, health = Answered 200\<rparr>)
                  \<lparr>onlineState = False, probes_sent = 0\<rparr>)
   \<and> probes_sent (handle (OnlineEvent \<lparr>navigator_onLine = True, health = Answered 200\<rparr>)
                  \<lparr>onlineState = False, probes_sent = 0\<rparr>) = 1
   \<and> \<not> onlineState (handle (OnlineEvent \<lparr>navigator_onLine = True, health = ProbeTimeout\<rparr>)
                  \<lparr>onlineState = True, probes_sent = 0\<rparr>)
   \<and> \<not> onlineState (handle OfflineEvent \<lparr>onlineState = True, probes_sent = 0\<rparr>)"
  using monitor_transitions [of "\<lparr>onlineState = False, probes_sent = 0\<rparr>"
                               "\<lparr>navigator_onLine = True, health = Answered 200\<rparr>"]
        monitor_transitions [of "\<lparr>onlineState = True, probes_sent = 0\<rparr>"
                               "\<lparr>navigator_onLine = True, health = ProbeTimeout\<rparr>"]
  by simp

section \<open>The offline credential check\<close>

lemma verifyTokenOffline_three:
  assumes "split ''.'' token = [h, p, s]"
  shows "verifyTokenOffline pf now token =
           (case atob_parse pf p of
              None \<Rightarrow> False
            | Some payload \<Rightarrow>
                (case get_exp payload of
                   TypeError \<Rightarrow> False
                 | Undefined \<Rightarrow> True
                 | Prop e \<Rightarrow> \<not> (truthy e \<and> now_ge_date now (times_1000 pf e))))"
  using assms by (auto simp: verifyTokenOffline_def split: option.splits property.splits)

lemma verifyTokenOffline_not_three:
  assumes "length (split ''.'' token) \<noteq> 3"
  shows "\<not> verifyTokenOffline pf now token"
  using assms by (simp add: verifyTokenOffline_def)

lemma verifyTokenOffline_numeric_exp:
  assumes "split ''.'' token = [h, p, s]" and "atob_parse pf p = Some (JObject kvs)"
    and "map_of kvs ''exp'' = Some (JNumber n)" and "\<bar>n * 1000\<bar> \<le> 8640000000000000"
  shows "verifyTokenOffline pf now token = (n = 0 \<or> now < n * 1000)"
  using assms by (auto simp: verifyTokenOffline_three now_ge_date_def)

text \<open>
  C10. A token of exactly three dot-separated segments whose middle segment decodes to
  a JSON object without an \<open>exp\<close> field passes the offline check at every time.
\<close>

theorem token_without_exp_never_expires:
  assumes "split ''.'' token = [h, p, s]"
    and "atob_parse pf p = Some (JObject kvs)"
    and "map_of kvs ''exp'' = None"
  shows "verifyTokenOffline pf now token"
  using assms by (simp add: verifyTokenOffline_three)

lemma split_sample: "split ''.'' ''h.eyJzdWIiOiJ1MSJ9.s'' = [''h'', ''eyJzdWIiOiJ1MSJ9'', ''s'']"
  by (simp add: split_def)

text \<open>C10 at a token whose claims are \<^verbatim>\<open>{"sub":"u1"}\<close>.\<close>

theorem token_without_exp_never_expires_witness:
  "split ''.'' ''h.eyJzdWIiOiJ1MSJ9.s'' = [''h'', ''eyJzdWIiOiJ1MSJ9'', ''s'']
   \<and> atob_parse sample_platform ''eyJzdWIiOiJ1MSJ9'' = Some (JObject [(''sub'', JString ''u1'')])
   \<and> map_of [(''sub'', JString ''u1'')] ''exp'' = None
   \<and> verifyTokenOffline sample_platform 99999999999999 ''h.eyJzdWIiOiJ1MSJ9.s''"
proof -
  have a: "atob_parse sample_platform ''eyJzdWIiOiJ1MSJ9'' = Some (JObject [(''sub'', JString ''u1'')])"
    by (simp add: sample_platform_def)
  have m: "map_of [(''sub'', JString ''u1'')] ''exp'' = None" by simp
  show ?thesis
    using token_without_exp_never_expires [OF split_sample a m, of 99999999999999]
          split_sample a m
    by simp
qed

lemma getCachedUserData_signed_in: "getCachedUserData now signed_in = (sample_user, signed_in)"
  by (simp add: getCachedUserData_def signed_in_def save_def empty_store_def get_def
      AUTH_CACHE_KEY_def expired_def sample_user_def)

text \<open>
  C4 at a failing input. The cookie carries a token whose claims are \<^verbatim>\<open>{"exp":0}\<close>, an
  expiry at the epoch, and an identity is cached. The expiry is before the current time,
  yet the offline check accepts the token (\<^verbatim>\<open>if (payload.exp)\<close> is false for 0) and the
  result is authenticated by token, not by cache.
\<close>

theorem exp_zero_token_accepted:
  "getTokenFromCookie (Some ''auth_token=h.eyJleHAiOjB9.s'') = Some ''h.eyJleHAiOjB9.s''
   \<and> atob_parse sample_platform ''eyJleHAiOjB9'' = Some (JObject [(''exp'', JNumber 0)])
   \<and> verifyTokenOffline sample_platform 1700000000000 ''h.eyJleHAiOjB9.s''
   \<and> isAuthenticatedOffline sample_platform (Some ''auth_token=h.eyJleHAiOjB9.s'')
        1700000000000 signed_in =
       (\<lparr>authenticated = True, user = sample_user, method_used = Token\<rparr>, signed_in)"
proof -
  have c: "getTokenFromCookie (Some ''auth_token=h.eyJleHAiOjB9.s'') = Some ''h.eyJleHAiOjB9.s''"
    by (simp add: getTokenFromCookie_def split_def)
  have s: "split ''.'' ''h.eyJleHAiOjB9.s'' = [''h'', ''eyJleHAiOjB9'', ''s'']"
    by (simp add: split_def)
  have a: "atob_parse sample_platform ''eyJleHAiOjB9'' = Some (JObject [(''exp'', JNumber 0)])"
    by (simp add: sample_platform_def)
  have v: "verifyTokenOffline sample_platform 1700000000000 ''h.eyJleHAiOjB9.s''"
    using a by (simp add: verifyTokenOffline_three [OF s])
  have u: "truthy sample_user" by (simp add: sample_user_def)
  show ?thesis
    using c a v u
    by (simp add: isAuthenticatedOffline_def getCachedUserData_signed_in)
qed

text \<open>The precedence chain of \<^verbatim>\<open>isAuthenticatedOffline\<close>: token and cached identity, then
  cached identity alone, then nothing.\<close>

lemma auth_by_token:
  assumes "getTokenFromCookie c = Some tok" and "tok \<noteq> []" and "verifyTokenOffline pf now tok"
    and "getCachedUserData now st = (u, st')" and "truthy u"
  shows "isAuthenticatedOffline pf c now st =
           (\<lparr>authenticated = True, user = u, method_used = Token\<rparr>, st')"
  using assms by (simp add: isAuthenticatedOffline_def)

lemma auth_by_cache:
  assumes "getTokenFromCookie c = None \<or>
           (\<exists>tok. getTokenFromCookie c = Some tok \<and> (tok = [] \<or> \<not> verifyTokenOffline pf now tok))"
    and "getCachedUserData now st = (u, st')" and "truthy u"
  shows "isAuthenticatedOffline pf c now st =
           (\<lparr>authenticated = True, user = u, method_used = Cache\<rparr>, st')"
  using assms by (auto simp: isAuthenticatedOffline_def)

lemma auth_none:
  assumes "\<not> truthy (fst (getCachedUserData now st))"
    and "\<not> truthy (fst (getCachedUserData now (snd (getCachedUserData now st))))"
  shows "fst (isAuthenticatedOffline pf c now st) =
           \<lparr>authenticated = False, user = JNull, method_used = NoMethod\<rparr>"
  using assms
  by (auto simp: isAuthenticatedOffline_def split: option.splits prod.splits)

end
